theory Spec2Isabelle
  imports Complex_Main
begin

section \<open>Leave service: the monthly leave quota\<close>

text \<open>
  The service functions of \<^verbatim>\<open>services/leaveService\<close> (\<^verbatim>\<open>src/unnamed/part_000\<close>) take
  the data-access object \<^verbatim>\<open>prisma\<close> and only ever touch its employee table. The model
  passes that table explicitly and returns it updated; a thrown \<^verbatim>\<open>Error\<close> is the \<open>Inl\<close>
  of the result, paired with the table as the function left it when it threw.
\<close>

datatype error =
    NotFound                 \<comment> \<open>\<^verbatim>\<open>Error("Karyawan tidak ditemukan.")\<close>, and the routes' 404 answers\<close>
  | QuotaExceeded            \<comment> \<open>\<^verbatim>\<open>Error("Kuota cuti bulan ini tidak mencukupi.")\<close>\<close>
  | QuotaInsufficient int    \<comment> \<open>the create route's 400 answer, with the remaining days\<close>
  | ValidationError          \<comment> \<open>400: a missing sick letter, a status that is not allowed\<close>
  | InvalidState string      \<comment> \<open>400: the attendance record is not an alpha record\<close>
  | UpdateStatusFailed       \<comment> \<open>400 \<^verbatim>\<open>"Gagal update status."\<close>: any exception caught by \<^verbatim>\<open>PUT /:id/status\<close>\<close>

subsection \<open>The clock and the month label\<close>

text \<open>
  \<^verbatim>\<open>new Date()\<close> is read through \<^verbatim>\<open>getFullYear()\<close> and \<^verbatim>\<open>getMonth()\<close> only (local time,
  months counted from 0), so a reading of the clock is these two numbers.
\<close>

record clock =
  getFullYear :: int
  getMonth :: nat

definition digit :: "nat \<Rightarrow> char" where
  "digit d = ''0123456789'' ! d"

fun String_nat :: "nat \<Rightarrow> string" where
  "String_nat n = (if n < 10 then [digit n] else String_nat (n div 10) @ [digit (n mod 10)])"

declare String_nat.simps [simp del]

definition js_String :: "int \<Rightarrow> string" where
  "js_String n = (if n < 0 then CHR ''-'' # String_nat (nat (- n)) else String_nat (nat n))"

definition padStart :: "nat \<Rightarrow> char \<Rightarrow> string \<Rightarrow> string" where
  "padStart targetLength c s = replicate (targetLength - length s) c @ s"

definition getCurrentMonth :: "clock \<Rightarrow> string" where
  "getCurrentMonth now =
     (let year = getFullYear now;
          month = padStart 2 CHR ''0'' (js_String (int (getMonth now) + 1))
      in js_String year @ ''-'' @ month)"

subsection \<open>Employee quota state\<close>

record employee =
  current_month :: string
  monthly_leave_quota :: int
  used_leave_days_this_month :: int

type_synonym employee_table = "nat \<rightharpoonup> employee"

record quota_info =
  quota :: int
  used :: int
  remaining :: int
  wasReset :: bool

definition checkAndResetMonthlyQuota ::
  "clock \<Rightarrow> employee_table \<Rightarrow> nat \<Rightarrow> (error + quota_info) \<times> employee_table" where
  "checkAndResetMonthlyQuota now tbl employeeId =
     (let currentMonth = getCurrentMonth now in
      case tbl employeeId of
        None \<Rightarrow> (Inl NotFound, tbl)
      | Some employee \<Rightarrow>
          if current_month employee \<noteq> currentMonth then
            (Inr \<lparr>quota = monthly_leave_quota employee,
                  used = 0,
                  remaining = monthly_leave_quota employee,
                  wasReset = True\<rparr>,
             tbl(employeeId \<mapsto>
               employee\<lparr>current_month := currentMonth, used_leave_days_this_month := 0\<rparr>))
          else
            (Inr \<lparr>quota = monthly_leave_quota employee,
                  used = used_leave_days_this_month employee,
                  remaining = monthly_leave_quota employee - used_leave_days_this_month employee,
                  wasReset = False\<rparr>,
             tbl))"

record quota_check =
  q_quota :: int
  q_used :: int
  q_remaining :: int
  q_requested :: int
  q_sufficient :: bool
  q_month :: string

definition checkLeaveQuota ::
  "clock \<Rightarrow> employee_table \<Rightarrow> nat \<Rightarrow> int \<Rightarrow> (error + quota_check) \<times> employee_table" where
  "checkLeaveQuota now tbl employeeId requestedDays =
     (case checkAndResetMonthlyQuota now tbl employeeId of
        (Inl e, tbl') \<Rightarrow> (Inl e, tbl')
      | (Inr quotaInfo, tbl') \<Rightarrow>
          (Inr \<lparr>q_quota = quota quotaInfo,
                q_used = used quotaInfo,
                q_remaining = remaining quotaInfo,
                q_requested = requestedDays,
                q_sufficient = (remaining quotaInfo \<ge> requestedDays),
                q_month = getCurrentMonth now\<rparr>,
           tbl'))"

definition updateEmployeeLeaveQuota ::
  "clock \<Rightarrow> employee_table \<Rightarrow> nat \<Rightarrow> int \<Rightarrow> (error + unit) \<times> employee_table" where
  "updateEmployeeLeaveQuota now tbl employeeId additionalDays =
     (case checkAndResetMonthlyQuota now tbl employeeId of
        (Inl e, tbl') \<Rightarrow> (Inl e, tbl')
      | (Inr _, tbl') \<Rightarrow>
          (case tbl' employeeId of
             None \<Rightarrow> (Inl NotFound, tbl')
           | Some employee \<Rightarrow>
               let newUsedDays = used_leave_days_this_month employee + additionalDays in
               if newUsedDays > monthly_leave_quota employee then (Inl QuotaExceeded, tbl')
               else
                 (Inr (),
                  tbl'(employeeId \<mapsto> employee\<lparr>used_leave_days_this_month := newUsedDays\<rparr>))))"

definition restoreLeaveQuota ::
  "clock \<Rightarrow> employee_table \<Rightarrow> nat \<Rightarrow> int \<Rightarrow> (error + unit) \<times> employee_table" where
  "restoreLeaveQuota now tbl employeeId days =
     (case tbl employeeId of
        None \<Rightarrow> (Inl NotFound, tbl)
      | Some employee \<Rightarrow>
          let currentMonth = getCurrentMonth now in
          if current_month employee = currentMonth then
            let newUsedDays = max 0 (used_leave_days_this_month employee - days) in
            (Inr (), tbl(employeeId \<mapsto> employee\<lparr>used_leave_days_this_month := newUsedDays\<rparr>))
          else (Inr (), tbl))"

subsection \<open>Counting leave days\<close>

text \<open>
  A \<^verbatim>\<open>Date\<close> is its time value, the milliseconds since the epoch: an integer of
  magnitude at most 8640000000000000, which a double holds exactly. The arithmetic on
  them is the arithmetic of doubles: \<open>double_of\<close> rounds a real number to the nearest
  number with 53 significant bits, a tie to the one whose last bit is 0 (numbers of the
  magnitudes that occur here neither overflow nor are subnormal). \<^verbatim>\<open>end - start\<close> and
  the division round; \<^verbatim>\<open>Math.abs\<close>, \<^verbatim>\<open>Math.ceil\<close> and the final \<^verbatim>\<open>+ 1\<close> on such values
  are exact. The same function is repeated in \<^verbatim>\<open>src/unnamed/part_001\<close>.
\<close>

definition round_half_even :: "real \<Rightarrow> int" where
  "round_half_even y =
     (let f = \<lfloor>y\<rfloor>; r = y - of_int f
      in if r < 1 / 2 then f
         else if 1 / 2 < r then f + 1
         else if even f then f else f + 1)"

definition double_of :: "real \<Rightarrow> real" where
  "double_of x =
     (if x = 0 then 0
      else
        let ulp = 2 powr of_int (\<lfloor>log 2 \<bar>x\<bar>\<rfloor> - 52)
        in of_int (round_half_even (x / ulp)) * ulp)"

definition calculateLeaveDays :: "int \<Rightarrow> int \<Rightarrow> int" where
  "calculateLeaveDays startDate endDate =
     (let diffTime = \<bar>double_of (of_int endDate - of_int startDate)\<bar>;
          diffDays = \<lceil>double_of (diffTime / (1000 * 60 * 60 * 24))\<rceil> + 1
      in diffDays)"

subsection \<open>The calendar date of a time value\<close>

text \<open>
  \<^verbatim>\<open>toISOString()\<close> prints the UTC date of a time value: year, month and day of the
  proleptic Gregorian calendar, the year with four digits from 0 to 9999 and with a sign
  and six digits otherwise. Only its date part is needed here.
\<close>

definition civil_from_days :: "int \<Rightarrow> int \<times> int \<times> int" where
  "civil_from_days days =
     (let z = days + 719468;
          era = z div 146097;
          doe = z mod 146097;
          yoe = (doe - doe div 1460 + doe div 36524 - doe div 146096) div 365;
          doy = doe - (365 * yoe + yoe div 4 - yoe div 100);
          mp = (5 * doy + 2) div 153;
          d = doy - (153 * mp + 2) div 5 + 1;
          m = (if mp < 10 then mp + 3 else mp - 9);
          y = yoe + era * 400 + (if m \<le> 2 then 1 else 0)
      in (y, m, d))"

definition toISOString_date :: "int \<Rightarrow> string" where
  "toISOString_date t =
     (case civil_from_days (t div 86400000) of
        (y, m, d) \<Rightarrow>
          (if 0 \<le> y \<and> y \<le> 9999 then padStart 4 CHR ''0'' (js_String y)
           else (if y < 0 then CHR ''-'' else CHR ''+'') # padStart 6 CHR ''0'' (js_String \<bar>y\<bar>))
          @ ''-'' @ padStart 2 CHR ''0'' (js_String m)
          @ ''-'' @ padStart 2 CHR ''0'' (js_String d))"

section \<open>Leave routes\<close>

text \<open>
  \<^verbatim>\<open>src/routes/leaveRoutes.js\<close>. The state the handlers work on is the employee table,
  the leave-request table with its auto-incremented key, and the directory
  \<^verbatim>\<open>uploads/sick-letters\<close>, a set of file names. A handler returns its answer and the
  state it leaves: \<open>Inr\<close> for the 2xx answers, \<open>Inl\<close> for the 4xx answers. An exception
  caught by the \<^verbatim>\<open>catch\<close> block of \<^verbatim>\<open>POST /\<close> is answered with 400 and the thrown error's
  message as \<^verbatim>\<open>details\<close>, so with that error; one caught by the \<^verbatim>\<open>catch\<close> block of
  \<^verbatim>\<open>PUT /:id/status\<close> is answered with 400 \<^verbatim>\<open>"Gagal update status."\<close> whatever was
  thrown, so with \<open>UpdateStatusFailed\<close>; in the answers of \<^verbatim>\<open>PUT /:id/status\<close> and
  \<^verbatim>\<open>DELETE /:id\<close>, \<open>NotFound\<close> is the 404 of a request that is not in the table.
  Each handler reads the clock once. Store operations themselves are taken to succeed.
  Dates of a request are valid time values, and \<open>alasan\<close> is the text after
  \<^verbatim>\<open>alasan || ""\<close>.
\<close>

record leave_request =
  employee_id :: nat
  tanggal_mulai :: int
  tanggal_selesai :: int
  jenis_pengajuan :: string
  alasan :: string
  status :: string
  total_days :: int
  attachment_filename :: "string option"

record world =
  employee_tbl :: employee_table
  leave_tbl :: "nat \<rightharpoonup> leave_request"
  next_leave_id :: nat
  sick_letters :: "string set"

text \<open>\<^verbatim>\<open>if (fs.existsSync(filePath)) fs.unlinkSync(filePath)\<close>\<close>

definition unlink_if_exists :: "string \<Rightarrow> world \<Rightarrow> world" where
  "unlink_if_exists filename w = w\<lparr>sick_letters := sick_letters w - {filename}\<rparr>"

text \<open>
  \<^verbatim>\<open>upload.single("attachment")\<close> runs before the handler of \<^verbatim>\<open>POST /\<close> and has stored
  the uploaded file, if the request carries one; \<^verbatim>\<open>req.file\<close> is its name.
\<close>

definition upload_single :: "string option \<Rightarrow> world \<Rightarrow> world" where
  "upload_single file w =
     (case file of
        None \<Rightarrow> w
      | Some filename \<Rightarrow> w\<lparr>sick_letters := insert filename (sick_letters w)\<rparr>)"

definition leaveRequest_create :: "leave_request \<Rightarrow> world \<Rightarrow> (error + leave_request) \<times> world" where
  "leaveRequest_create leaveData w =
     (Inr leaveData,
      w\<lparr>leave_tbl := (leave_tbl w)(next_leave_id w \<mapsto> leaveData),
        next_leave_id := Suc (next_leave_id w)\<rparr>)"

definition post_leave_handler ::
  "clock \<Rightarrow> world \<Rightarrow> nat \<Rightarrow> int \<Rightarrow> int \<Rightarrow> string \<Rightarrow> string \<Rightarrow> string option \<Rightarrow>
     (error + leave_request) \<times> world" where
  "post_leave_handler now w employeeId startDate endDate jenis alasan' file =
     (if jenis = ''Sakit'' \<and> file = None then (Inl ValidationError, w)
      else
        let totalDays = calculateLeaveDays startDate endDate;
            leaveData = \<lparr>employee_id = employeeId,
                         tanggal_mulai = startDate,
                         tanggal_selesai = endDate,
                         jenis_pengajuan = jenis,
                         alasan = alasan',
                         status = ''pending'',
                         total_days = totalDays,
                         attachment_filename = file\<rparr>
        in
          if jenis = ''Cuti'' then
            (case checkLeaveQuota now (employee_tbl w) employeeId totalDays of
               (Inl e, tbl') \<Rightarrow>
                 (Inl e,
                  (case file of
                     None \<Rightarrow> w\<lparr>employee_tbl := tbl'\<rparr>
                   | Some filename \<Rightarrow> unlink_if_exists filename (w\<lparr>employee_tbl := tbl'\<rparr>)))
             | (Inr quotaCheck, tbl') \<Rightarrow>
                 if \<not> q_sufficient quotaCheck then
                   (Inl (QuotaInsufficient (q_remaining quotaCheck)), w\<lparr>employee_tbl := tbl'\<rparr>)
                 else leaveRequest_create leaveData (w\<lparr>employee_tbl := tbl'\<rparr>))
          else leaveRequest_create leaveData w)"

definition post_leave ::
  "clock \<Rightarrow> world \<Rightarrow> nat \<Rightarrow> int \<Rightarrow> int \<Rightarrow> string \<Rightarrow> string \<Rightarrow> string option \<Rightarrow>
     (error + leave_request) \<times> world" where
  "post_leave now w employeeId startDate endDate jenis alasan' file =
     post_leave_handler now (upload_single file w) employeeId startDate endDate jenis alasan' file"

definition leaveRequest_update_status ::
  "nat \<Rightarrow> leave_request \<Rightarrow> string \<Rightarrow> world \<Rightarrow> (error + leave_request) \<times> world" where
  "leaveRequest_update_status leaveId leaveRequest newStatus w =
     (let updated = leaveRequest\<lparr>status := newStatus\<rparr>
      in (Inr updated, w\<lparr>leave_tbl := (leave_tbl w)(leaveId \<mapsto> updated)\<rparr>))"

definition put_status ::
  "clock \<Rightarrow> world \<Rightarrow> nat \<Rightarrow> string \<Rightarrow> (error + leave_request) \<times> world" where
  "put_status now w leaveId newStatus =
     (case leave_tbl w leaveId of
        None \<Rightarrow> (Inl NotFound, w)
      | Some leaveRequest \<Rightarrow>
          let previousStatus = status leaveRequest in
          if newStatus = ''approved'' \<and> previousStatus = ''pending''
               \<and> jenis_pengajuan leaveRequest = ''Cuti'' then
            let leaveMonth = take 7 (toISOString_date (tanggal_mulai leaveRequest)) in
            if leaveMonth = getCurrentMonth now then
              (case updateEmployeeLeaveQuota now (employee_tbl w)
                      (employee_id leaveRequest) (total_days leaveRequest) of
                 (Inl e, tbl') \<Rightarrow> (Inl UpdateStatusFailed, w\<lparr>employee_tbl := tbl'\<rparr>)
               | (Inr _, tbl') \<Rightarrow>
                   leaveRequest_update_status leaveId leaveRequest newStatus (w\<lparr>employee_tbl := tbl'\<rparr>))
            else leaveRequest_update_status leaveId leaveRequest newStatus w
          else leaveRequest_update_status leaveId leaveRequest newStatus w)"

definition delete_leave :: "world \<Rightarrow> nat \<Rightarrow> (error + unit) \<times> world" where
  "delete_leave w leaveId =
     (case leave_tbl w leaveId of
        None \<Rightarrow> (Inl NotFound, w)
      | Some leaveRequest \<Rightarrow>
          let w' = (case attachment_filename leaveRequest of
                      None \<Rightarrow> w
                    | Some filename \<Rightarrow> if filename = [] then w else unlink_if_exists filename w)
          in (Inr (), w'\<lparr>leave_tbl := (leave_tbl w')(leaveId := None)\<rparr>))"

section \<open>Alpha routes\<close>

text \<open>
  \<^verbatim>\<open>src/routes/alphaRoutes.js\<close>. The attendance table is the list of its rows, with
  \<open>attendance_id\<close> its primary key; a time value stands for \<^verbatim>\<open>tanggal\<close>. The handlers
  answer with the rows they read; the joined employee columns are left out.
\<close>

record attendance =
  attendance_id :: nat
  att_employee_id :: nat
  tanggal :: int
  att_status :: string
  keterangan :: string

definition attendance_findUnique :: "attendance list \<Rightarrow> nat \<Rightarrow> attendance option" where
  "attendance_findUnique atts attendanceId = find (\<lambda>r. attendance_id r = attendanceId) atts"

definition attendance_update ::
  "nat \<Rightarrow> (attendance \<Rightarrow> attendance) \<Rightarrow> attendance list \<Rightarrow> attendance list" where
  "attendance_update attendanceId change atts = map (\<lambda>r. if attendance_id r = attendanceId then change r else r) atts"

definition convert_alpha ::
  "string \<Rightarrow> attendance list \<Rightarrow> nat \<Rightarrow> string \<Rightarrow> string option \<Rightarrow>
     (error + attendance) \<times> attendance list" where
  "convert_alpha username atts attendanceId new_status keterangan' =
     (if new_status \<notin> set [''hadir'', ''izin'', ''sakit''] then (Inl ValidationError, atts)
      else
        case attendance_findUnique atts attendanceId of
          None \<Rightarrow> (Inl NotFound, atts)
        | Some rec \<Rightarrow>
            if att_status rec \<noteq> ''alpa'' then (Inl (InvalidState (att_status rec)), atts)
            else
              let fallback = ''Converted from alpha to '' @ new_status @ '' by '' @ username;
                  remark = (case keterangan' of
                            None \<Rightarrow> fallback
                          | Some k \<Rightarrow> if k = [] then fallback else k);
                  change = (\<lambda>r. r\<lparr>att_status := new_status, keterangan := remark\<rparr>)
              in (Inr (change rec), attendance_update attendanceId change atts))"

definition remove_alpha :: "attendance list \<Rightarrow> nat \<Rightarrow> (error + attendance) \<times> attendance list" where
  "remove_alpha atts attendanceId =
     (case attendance_findUnique atts attendanceId of
        None \<Rightarrow> (Inl NotFound, atts)
      | Some rec \<Rightarrow>
          if att_status rec \<noteq> ''alpa'' then (Inl (InvalidState (att_status rec)), atts)
          else (Inr rec, filter (\<lambda>r. attendance_id r \<noteq> attendanceId) atts))"

text \<open>
  \<^verbatim>\<open>prisma.attendance.findMany\<close> with \<^verbatim>\<open>status: "alpa"\<close>, \<^verbatim>\<open>tanggal: {gte, lte}\<close> and
  \<^verbatim>\<open>orderBy: {tanggal: "desc"}\<close>; rows of one date keep the order of the table.
\<close>

definition alpha_findMany :: "attendance list \<Rightarrow> int \<Rightarrow> int \<Rightarrow> attendance list" where
  "alpha_findMany atts startDate endDate =
     sort_key (\<lambda>r. - tanggal r)
       (filter (\<lambda>r. att_status r = ''alpa'' \<and> startDate \<le> tanggal r \<and> tanggal r \<le> endDate) atts)"

record employee_alpha =
  ea_employee_id :: nat
  alpha_count :: nat
  ea_total_deduction :: nat

text \<open>
  \<^verbatim>\<open>employeeSummary\<close> is an object keyed by employee ids; \<^verbatim>\<open>Object.values\<close> lists its
  entries by ascending key, so the object is the list of its entries in that order.
\<close>

fun count_alpha :: "nat \<Rightarrow> employee_alpha list \<Rightarrow> employee_alpha list" where
  "count_alpha empId [] = [\<lparr>ea_employee_id = empId, alpha_count = 1, ea_total_deduction = 100000\<rparr>]"
| "count_alpha empId (e # es) =
     (if empId = ea_employee_id e then
        e\<lparr>alpha_count := alpha_count e + 1, ea_total_deduction := ea_total_deduction e + 100000\<rparr> # es
      else if empId < ea_employee_id e then
        \<lparr>ea_employee_id = empId, alpha_count = 1, ea_total_deduction = 100000\<rparr> # e # es
      else e # count_alpha empId es)"

record alpha_summary =
  total_alpha_records :: nat
  total_deduction :: nat
  employees_affected :: nat
  top_10 :: "employee_alpha list"
  all_employees :: "employee_alpha list"

text \<open>
  \<^verbatim>\<open>GET /summary\<close> takes \<^verbatim>\<open>startDate\<close> and \<^verbatim>\<open>endDate\<close> from the clock (the first and the
  last instant of the running month); here they are arguments.
\<close>

definition get_summary :: "attendance list \<Rightarrow> int \<Rightarrow> int \<Rightarrow> alpha_summary" where
  "get_summary atts startDate endDate =
     (let alphaRecords = alpha_findMany atts startDate endDate;
          employeeSummary = fold (\<lambda>r acc. count_alpha (att_employee_id r) acc) alphaRecords [];
          summary = sort_key (\<lambda>e. - int (alpha_count e)) employeeSummary
      in \<lparr>total_alpha_records = length alphaRecords,
          total_deduction = length alphaRecords * 100000,
          employees_affected = length summary,
          top_10 = take 10 summary,
          all_employees = summary\<rparr>)"

text \<open>\<^verbatim>\<open>GET /employee/:employee_id\<close>: the alpha count and the deduction of one employee.\<close>

definition get_employee_alpha :: "attendance list \<Rightarrow> nat \<Rightarrow> int \<Rightarrow> int \<Rightarrow> nat \<times> nat" where
  "get_employee_alpha atts employeeId startDate endDate =
     (let alphaRecords = filter (\<lambda>r. att_employee_id r = employeeId)
                           (alpha_findMany atts startDate endDate);
          alphaCount = length alphaRecords;
          totalDeduction = alphaCount * 100000
      in (alphaCount, totalDeduction))"

section \<open>Sequences of quota calls\<close>

text \<open>
  A call of the quota manager, made at some reading of the clock. A call that throws
  leaves the table as it was when it threw; the next call starts from there.
\<close>

datatype quota_call =
    Consume nat int
  | Restore nat int
  | RolloverIfNeeded nat

fun call_days :: "quota_call \<Rightarrow> int" where
  "call_days (Consume employeeId days) = days"
| "call_days (Restore employeeId days) = days"
| "call_days (RolloverIfNeeded employeeId) = 0"

fun quota_step :: "clock \<times> quota_call \<Rightarrow> employee_table \<Rightarrow> employee_table" where
  "quota_step (now, Consume employeeId days) tbl = snd (updateEmployeeLeaveQuota now tbl employeeId days)"
| "quota_step (now, Restore employeeId days) tbl = snd (restoreLeaveQuota now tbl employeeId days)"
| "quota_step (now, RolloverIfNeeded employeeId) tbl = snd (checkAndResetMonthlyQuota now tbl employeeId)"

fun quota_run :: "(clock \<times> quota_call) list \<Rightarrow> employee_table \<Rightarrow> employee_table" where
  "quota_run [] tbl = tbl"
| "quota_run (c # cs) tbl = quota_run cs (quota_step c tbl)"

definition quota_ok :: "employee \<Rightarrow> bool" where
  "quota_ok e = (0 \<le> used_leave_days_this_month e
                 \<and> used_leave_days_this_month e \<le> monthly_leave_quota e)"

section \<open>Example states\<close>

text \<open>
  The states the examples below are run on: a reading of the clock in January 2025,
  an employee table with employee 7 alone, a leave request of kind \<^verbatim>\<open>Cuti\<close> and one of
  kind \<^verbatim>\<open>Sakit\<close> of that employee, a state with no uploaded file, and an attendance row.
\<close>

abbreviation jan_2025 :: clock where
  "jan_2025 \<equiv> \<lparr>getFullYear = 2025, getMonth = 0\<rparr>"

abbreviation employee_7 :: "int \<Rightarrow> int \<Rightarrow> employee_table" where
  "employee_7 q u \<equiv>
     [7 \<mapsto> \<lparr>current_month = ''2025-01'', monthly_leave_quota = q,
                 used_leave_days_this_month = u\<rparr>]"

abbreviation cuti_of_7 :: "int \<Rightarrow> int \<Rightarrow> int \<Rightarrow> string \<Rightarrow> leave_request" where
  "cuti_of_7 start end days st \<equiv>
     \<lparr>employee_id = 7, tanggal_mulai = start, tanggal_selesai = end,
      jenis_pengajuan = ''Cuti'', alasan = ''liburan'', status = st, total_days = days,
      attachment_filename = None\<rparr>"

abbreviation sakit_of_7 :: "int \<Rightarrow> int \<Rightarrow> int \<Rightarrow> string \<Rightarrow> leave_request" where
  "sakit_of_7 start end days st \<equiv>
     \<lparr>employee_id = 7, tanggal_mulai = start, tanggal_selesai = end,
      jenis_pengajuan = ''Sakit'', alasan = ''demam'', status = st, total_days = days,
      attachment_filename = Some ''7_1736000000000_surat.pdf''\<rparr>"

abbreviation world_of :: "employee_table \<Rightarrow> (nat \<rightharpoonup> leave_request) \<Rightarrow> world" where
  "world_of employees leaves \<equiv>
     \<lparr>employee_tbl = employees, leave_tbl = leaves, next_leave_id = 2, sick_letters = {}\<rparr>"

abbreviation alpha_row :: "nat \<Rightarrow> nat \<Rightarrow> int \<Rightarrow> string \<Rightarrow> attendance" where
  "alpha_row i emp t st \<equiv>
     \<lparr>attendance_id = i, att_employee_id = emp, tanggal = t, att_status = st,
      keterangan = ''Tidak hadir tanpa keterangan''\<rparr>"

section \<open>Properties of the quota manager\<close>

subsection \<open>Month labels used in the examples\<close>

lemma getCurrentMonth_jan_2025:
  "getCurrentMonth \<lparr>getFullYear = 2025, getMonth = 0\<rparr> = ''2025-01''"
  by (simp add: getCurrentMonth_def padStart_def js_String_def String_nat.simps digit_def)

lemma getCurrentMonth_feb_2025:
  "getCurrentMonth \<lparr>getFullYear = 2025, getMonth = Suc 0\<rparr> = ''2025-02''"
  by (simp add: getCurrentMonth_def padStart_def js_String_def String_nat.simps digit_def)

subsection \<open>The three outcomes of each service function\<close>

lemma checkAndReset_None:
  "tbl i = None \<Longrightarrow> checkAndResetMonthlyQuota now tbl i = (Inl NotFound, tbl)"
  by (simp add: checkAndResetMonthlyQuota_def)

lemma checkAndReset_reset:
  "tbl i = Some e \<Longrightarrow> current_month e \<noteq> getCurrentMonth now \<Longrightarrow>
   checkAndResetMonthlyQuota now tbl i =
     (Inr \<lparr>quota = monthly_leave_quota e, used = 0, remaining = monthly_leave_quota e,
           wasReset = True\<rparr>,
      tbl(i \<mapsto> e\<lparr>current_month := getCurrentMonth now, used_leave_days_this_month := 0\<rparr>))"
  by (simp add: checkAndResetMonthlyQuota_def)

lemma checkAndReset_same:
  "tbl i = Some e \<Longrightarrow> current_month e = getCurrentMonth now \<Longrightarrow>
   checkAndResetMonthlyQuota now tbl i =
     (Inr \<lparr>quota = monthly_leave_quota e, used = used_leave_days_this_month e,
           remaining = monthly_leave_quota e - used_leave_days_this_month e,
           wasReset = False\<rparr>,
      tbl)"
  by (simp add: checkAndResetMonthlyQuota_def)

lemma update_quota_None:
  "tbl i = None \<Longrightarrow> updateEmployeeLeaveQuota now tbl i days = (Inl NotFound, tbl)"
  by (simp add: updateEmployeeLeaveQuota_def checkAndReset_None)

lemma update_quota_same:
  "tbl i = Some e \<Longrightarrow> current_month e = getCurrentMonth now \<Longrightarrow>
   updateEmployeeLeaveQuota now tbl i days =
     (if used_leave_days_this_month e + days > monthly_leave_quota e then (Inl QuotaExceeded, tbl)
      else (Inr (), tbl(i \<mapsto> e\<lparr>used_leave_days_this_month := used_leave_days_this_month e + days\<rparr>)))"
  by (simp add: updateEmployeeLeaveQuota_def checkAndReset_same)

lemma update_quota_reset:
  "tbl i = Some e \<Longrightarrow> current_month e \<noteq> getCurrentMonth now \<Longrightarrow>
   updateEmployeeLeaveQuota now tbl i days =
     (if days > monthly_leave_quota e then
        (Inl QuotaExceeded,
         tbl(i \<mapsto> e\<lparr>current_month := getCurrentMonth now, used_leave_days_this_month := 0\<rparr>))
      else
        (Inr (),
         tbl(i \<mapsto> e\<lparr>current_month := getCurrentMonth now, used_leave_days_this_month := days\<rparr>)))"
  by (simp add: updateEmployeeLeaveQuota_def checkAndReset_reset)

lemma restore_None:
  "tbl i = None \<Longrightarrow> restoreLeaveQuota now tbl i days = (Inl NotFound, tbl)"
  by (simp add: restoreLeaveQuota_def)

lemma restore_same:
  "tbl i = Some e \<Longrightarrow> current_month e = getCurrentMonth now \<Longrightarrow>
   restoreLeaveQuota now tbl i days =
     (Inr (), tbl(i \<mapsto> e\<lparr>used_leave_days_this_month := max 0 (used_leave_days_this_month e - days)\<rparr>))"
  by (simp add: restoreLeaveQuota_def)

lemma restore_other:
  "tbl i = Some e \<Longrightarrow> current_month e \<noteq> getCurrentMonth now \<Longrightarrow>
   restoreLeaveQuota now tbl i days = (Inr (), tbl)"
  by (simp add: restoreLeaveQuota_def)

lemma update_quota_other: "j \<noteq> i \<Longrightarrow> snd (updateEmployeeLeaveQuota now tbl j days) i = tbl i"
  by (simp add: updateEmployeeLeaveQuota_def checkAndResetMonthlyQuota_def Let_def
      split: option.splits)

lemma restore_quota_other: "j \<noteq> i \<Longrightarrow> snd (restoreLeaveQuota now tbl j days) i = tbl i"
  by (simp add: restoreLeaveQuota_def Let_def split: option.splits)

lemma checkAndReset_other: "j \<noteq> i \<Longrightarrow> snd (checkAndResetMonthlyQuota now tbl j) i = tbl i"
  by (simp add: checkAndResetMonthlyQuota_def Let_def split: option.splits)

subsection \<open>Rollover\<close>

text \<open>
  Claim C6. For an employee that exists, \<open>checkAndResetMonthlyQuota\<close> (rolloverIfNeeded)
  called in a month whose label differs from the stored \<open>current_month\<close> stores the new
  label and 0 used days and answers \<open>wasReset = True\<close> with \<open>remaining = quota\<close>; called in
  the stored month it answers the stored counters with \<open>wasReset = False\<close> and leaves the
  table as it is. So a second call at the same reading of the clock answers
  \<open>wasReset = False\<close> with the counters of the first answer and changes nothing. For an
  employee that does not exist it fails with \<open>NotFound\<close>.
\<close>

theorem C6_rollover:
  "(tbl i = None \<longrightarrow> checkAndResetMonthlyQuota now tbl i = (Inl NotFound, tbl))
   \<and> (tbl i = Some e \<and> current_month e \<noteq> getCurrentMonth now \<longrightarrow>
        checkAndResetMonthlyQuota now tbl i =
          (Inr \<lparr>quota = monthly_leave_quota e, used = 0, remaining = monthly_leave_quota e,
                wasReset = True\<rparr>,
           tbl(i \<mapsto> e\<lparr>current_month := getCurrentMonth now, used_leave_days_this_month := 0\<rparr>)))
   \<and> (tbl i = Some e \<and> current_month e = getCurrentMonth now \<longrightarrow>
        checkAndResetMonthlyQuota now tbl i =
          (Inr \<lparr>quota = monthly_leave_quota e, used = used_leave_days_this_month e,
                remaining = monthly_leave_quota e - used_leave_days_this_month e,
                wasReset = False\<rparr>,
           tbl))
   \<and> (tbl i = Some e \<longrightarrow>
        (\<exists>first second tbl'.
            checkAndResetMonthlyQuota now tbl i = (Inr first, tbl')
            \<and> checkAndResetMonthlyQuota now tbl' i = (Inr second, tbl')
            \<and> wasReset second = False
            \<and> quota second = quota first \<and> used second = used first
            \<and> remaining second = remaining first))"
proof (intro conjI impI)
  assume "tbl i = None"
  then show "checkAndResetMonthlyQuota now tbl i = (Inl NotFound, tbl)"
    by (rule checkAndReset_None)
next
  assume "tbl i = Some e \<and> current_month e \<noteq> getCurrentMonth now"
  then show "checkAndResetMonthlyQuota now tbl i =
          (Inr \<lparr>quota = monthly_leave_quota e, used = 0, remaining = monthly_leave_quota e,
                wasReset = True\<rparr>,
           tbl(i \<mapsto> e\<lparr>current_month := getCurrentMonth now, used_leave_days_this_month := 0\<rparr>))"
    by (simp add: checkAndReset_reset)
next
  assume "tbl i = Some e \<and> current_month e = getCurrentMonth now"
  then show "checkAndResetMonthlyQuota now tbl i =
          (Inr \<lparr>quota = monthly_leave_quota e, used = used_leave_days_this_month e,
                remaining = monthly_leave_quota e - used_leave_days_this_month e,
                wasReset = False\<rparr>,
           tbl)"
    by (simp add: checkAndReset_same)
next
  assume s: "tbl i = Some e"
  show "\<exists>first second tbl'.
            checkAndResetMonthlyQuota now tbl i = (Inr first, tbl')
            \<and> checkAndResetMonthlyQuota now tbl' i = (Inr second, tbl')
            \<and> wasReset second = False
            \<and> quota second = quota first \<and> used second = used first
            \<and> remaining second = remaining first"
  proof (cases "current_month e = getCurrentMonth now")
    case True
    from checkAndReset_same [of tbl i e now, OF s True] show ?thesis
      by auto
  next
    case False
    let ?e = "e\<lparr>current_month := getCurrentMonth now, used_leave_days_this_month := 0\<rparr>"
    have "(tbl(i \<mapsto> ?e)) i = Some ?e" "current_month ?e = getCurrentMonth now" by simp_all
    from checkAndReset_same [of "tbl(i \<mapsto> ?e)" i ?e now, OF this]
      checkAndReset_reset [of tbl i e now, OF s False]
    show ?thesis
      by auto
  qed
qed

theorem C6_rollover_witness:
  "checkAndResetMonthlyQuota \<lparr>getFullYear = 2025, getMonth = 1\<rparr>
      [1 \<mapsto> \<lparr>current_month = ''2025-01'', monthly_leave_quota = 12, used_leave_days_this_month = 4\<rparr>] 2
     = (Inl NotFound,
        [1 \<mapsto> \<lparr>current_month = ''2025-01'', monthly_leave_quota = 12, used_leave_days_this_month = 4\<rparr>])
   \<and> checkAndResetMonthlyQuota \<lparr>getFullYear = 2025, getMonth = 1\<rparr>
      [1 \<mapsto> \<lparr>current_month = ''2025-01'', monthly_leave_quota = 12, used_leave_days_this_month = 4\<rparr>] 1
     = (Inr \<lparr>quota = 12, used = 0, remaining = 12, wasReset = True\<rparr>,
        [1 \<mapsto> \<lparr>current_month = ''2025-02'', monthly_leave_quota = 12, used_leave_days_this_month = 0\<rparr>])
   \<and> checkAndResetMonthlyQuota \<lparr>getFullYear = 2025, getMonth = 0\<rparr>
      [1 \<mapsto> \<lparr>current_month = ''2025-01'', monthly_leave_quota = 12, used_leave_days_this_month = 4\<rparr>] 1
     = (Inr \<lparr>quota = 12, used = 4, remaining = 8, wasReset = False\<rparr>,
        [1 \<mapsto> \<lparr>current_month = ''2025-01'', monthly_leave_quota = 12, used_leave_days_this_month = 4\<rparr>])
   \<and> (\<exists>info. checkAndResetMonthlyQuota \<lparr>getFullYear = 2025, getMonth = 1\<rparr>
      [1 \<mapsto> \<lparr>current_month = ''2025-02'', monthly_leave_quota = 12, used_leave_days_this_month = 0\<rparr>] 1
     = (Inr info,
        [1 \<mapsto> \<lparr>current_month = ''2025-02'', monthly_leave_quota = 12, used_leave_days_this_month = 0\<rparr>])
       \<and> wasReset info = False)"
  using C6_rollover [of "[1 \<mapsto> \<lparr>current_month = ''2025-01'', monthly_leave_quota = 12, used_leave_days_this_month = 4\<rparr>]"
          2 "\<lparr>getFullYear = 2025, getMonth = 1\<rparr>"]
        C6_rollover [of "[1 \<mapsto> \<lparr>current_month = ''2025-01'', monthly_leave_quota = 12, used_leave_days_this_month = 4\<rparr>]"
          1 "\<lparr>getFullYear = 2025, getMonth = 1\<rparr>"
          "\<lparr>current_month = ''2025-01'', monthly_leave_quota = 12, used_leave_days_this_month = 4\<rparr>"]
        C6_rollover [of "[1 \<mapsto> \<lparr>current_month = ''2025-01'', monthly_leave_quota = 12, used_leave_days_this_month = 4\<rparr>]"
          1 "\<lparr>getFullYear = 2025, getMonth = 0\<rparr>"
          "\<lparr>current_month = ''2025-01'', monthly_leave_quota = 12, used_leave_days_this_month = 4\<rparr>"]
  by (auto simp: getCurrentMonth_feb_2025 getCurrentMonth_jan_2025)

subsection \<open>Consume\<close>

text \<open>
  Claim C4. Let \<open>u\<close> be the used days after the implicit rollover: the stored ones if the
  stored month is the current one, 0 otherwise. For an existing employee and any \<open>days\<close>:
  if \<open>u + days > quota\<close>, \<open>updateEmployeeLeaveQuota\<close> (consume) fails with \<open>QuotaExceeded\<close> and
  the used days stay \<open>u\<close>; if \<open>u + days \<le> quota\<close> it succeeds and stores exactly \<open>u + days\<close>.
\<close>

theorem C4_consume:
  assumes "tbl i = Some e"
  shows "let u = (if current_month e = getCurrentMonth now then used_leave_days_this_month e else 0);
             res = updateEmployeeLeaveQuota now tbl i days
         in (u + days > monthly_leave_quota e \<longrightarrow>
               fst res = Inl QuotaExceeded
               \<and> snd res i = Some \<lparr>current_month = getCurrentMonth now,
                                   monthly_leave_quota = monthly_leave_quota e,
                                   used_leave_days_this_month = u\<rparr>)
          \<and> (u + days \<le> monthly_leave_quota e \<longrightarrow>
               fst res = Inr ()
               \<and> snd res i = Some \<lparr>current_month = getCurrentMonth now,
                                   monthly_leave_quota = monthly_leave_quota e,
                                   used_leave_days_this_month = u + days\<rparr>)"
proof (cases "current_month e = getCurrentMonth now")
  case True
  from update_quota_same [of tbl i e now days, OF assms True] True assms show ?thesis
    by (cases e) (simp add: Let_def)
next
  case False
  from update_quota_reset [of tbl i e now days, OF assms False] False assms show ?thesis
    by (cases e) (simp add: Let_def)
qed

theorem C4_consume_witness:
  "fst (updateEmployeeLeaveQuota \<lparr>getFullYear = 2025, getMonth = 0\<rparr>
          [1 \<mapsto> \<lparr>current_month = ''2025-01'', monthly_leave_quota = 5, used_leave_days_this_month = 5\<rparr>] 1 1)
     = Inl QuotaExceeded
   \<and> snd (updateEmployeeLeaveQuota \<lparr>getFullYear = 2025, getMonth = 0\<rparr>
          [1 \<mapsto> \<lparr>current_month = ''2025-01'', monthly_leave_quota = 5, used_leave_days_this_month = 5\<rparr>] 1 1) 1
     = Some \<lparr>current_month = ''2025-01'', monthly_leave_quota = 5, used_leave_days_this_month = 5\<rparr>
   \<and> fst (updateEmployeeLeaveQuota \<lparr>getFullYear = 2025, getMonth = 0\<rparr>
          [1 \<mapsto> \<lparr>current_month = ''2025-01'', monthly_leave_quota = 12, used_leave_days_this_month = 0\<rparr>] 1 4)
     = Inr ()
   \<and> snd (updateEmployeeLeaveQuota \<lparr>getFullYear = 2025, getMonth = 0\<rparr>
          [1 \<mapsto> \<lparr>current_month = ''2025-01'', monthly_leave_quota = 12, used_leave_days_this_month = 0\<rparr>] 1 4) 1
     = Some \<lparr>current_month = ''2025-01'', monthly_leave_quota = 12, used_leave_days_this_month = 4\<rparr>"
  using C4_consume [of "[1 \<mapsto> \<lparr>current_month = ''2025-01'', monthly_leave_quota = 5, used_leave_days_this_month = 5\<rparr>]"
          1 "\<lparr>current_month = ''2025-01'', monthly_leave_quota = 5, used_leave_days_this_month = 5\<rparr>"
          "\<lparr>getFullYear = 2025, getMonth = 0\<rparr>" 1]
        C4_consume [of "[1 \<mapsto> \<lparr>current_month = ''2025-01'', monthly_leave_quota = 12, used_leave_days_this_month = 0\<rparr>]"
          1 "\<lparr>current_month = ''2025-01'', monthly_leave_quota = 12, used_leave_days_this_month = 0\<rparr>"
          "\<lparr>getFullYear = 2025, getMonth = 0\<rparr>" 4]
  by (simp add: getCurrentMonth_jan_2025 Let_def)

subsection \<open>Restore\<close>

text \<open>
  Claim C5. For an existing employee, \<open>restoreLeaveQuota\<close> (restore) in the stored month
  sets the used days to \<open>max 0 (used - days)\<close>, which is never negative; in any other
  month it changes nothing. In both cases the stored \<open>current_month\<close> is what it was:
  restore never rolls the month over.
\<close>

theorem C5_restore:
  assumes "tbl i = Some e"
  shows "(current_month e = getCurrentMonth now \<longrightarrow>
            restoreLeaveQuota now tbl i days =
              (Inr (), tbl(i \<mapsto> e\<lparr>used_leave_days_this_month :=
                                     max 0 (used_leave_days_this_month e - days)\<rparr>)))
       \<and> (current_month e \<noteq> getCurrentMonth now \<longrightarrow>
            restoreLeaveQuota now tbl i days = (Inr (), tbl))
       \<and> (\<exists>e'. snd (restoreLeaveQuota now tbl i days) i = Some e'
                \<and> current_month e' = current_month e
                \<and> monthly_leave_quota e' = monthly_leave_quota e
                \<and> (if current_month e = getCurrentMonth now
                    then 0 \<le> used_leave_days_this_month e'
                    else used_leave_days_this_month e' = used_leave_days_this_month e))"
proof (cases "current_month e = getCurrentMonth now")
  case True
  from restore_same [of tbl i e now days, OF assms True] True show ?thesis
    by simp
next
  case False
  from restore_other [of tbl i e now days, OF assms False] False assms show ?thesis
    by simp
qed

theorem C5_restore_witness:
  "restoreLeaveQuota \<lparr>getFullYear = 2025, getMonth = 1\<rparr>
      [1 \<mapsto> \<lparr>current_month = ''2025-01'', monthly_leave_quota = 12, used_leave_days_this_month = 4\<rparr>] 1 3
     = (Inr (),
        [1 \<mapsto> \<lparr>current_month = ''2025-01'', monthly_leave_quota = 12, used_leave_days_this_month = 4\<rparr>])
   \<and> restoreLeaveQuota \<lparr>getFullYear = 2025, getMonth = 0\<rparr>
      [1 \<mapsto> \<lparr>current_month = ''2025-01'', monthly_leave_quota = 12, used_leave_days_this_month = 4\<rparr>] 1 6
     = (Inr (),
        [1 \<mapsto> \<lparr>current_month = ''2025-01'', monthly_leave_quota = 12, used_leave_days_this_month = 0\<rparr>])"
  using C5_restore [of "[1 \<mapsto> \<lparr>current_month = ''2025-01'', monthly_leave_quota = 12, used_leave_days_this_month = 4\<rparr>]"
          1 "\<lparr>current_month = ''2025-01'', monthly_leave_quota = 12, used_leave_days_this_month = 4\<rparr>"
          "\<lparr>getFullYear = 2025, getMonth = 1\<rparr>" 3]
        C5_restore [of "[1 \<mapsto> \<lparr>current_month = ''2025-01'', monthly_leave_quota = 12, used_leave_days_this_month = 4\<rparr>]"
          1 "\<lparr>current_month = ''2025-01'', monthly_leave_quota = 12, used_leave_days_this_month = 4\<rparr>"
          "\<lparr>getFullYear = 2025, getMonth = 0\<rparr>" 6]
  by (simp add: getCurrentMonth_jan_2025 getCurrentMonth_feb_2025)

subsection \<open>The quota invariant\<close>

lemma quota_step_ok:
  assumes "tbl i = Some e" and "quota_ok e" and "0 \<le> call_days (snd c)"
  shows "\<exists>e'. quota_step c tbl i = Some e' \<and> quota_ok e'
              \<and> monthly_leave_quota e' = monthly_leave_quota e"
proof (cases c)
  case (Pair now q)
  show ?thesis
  proof (cases q)
    case (Consume j days)
    show ?thesis
    proof (cases "j = i")
      case True
      with assms Pair Consume show ?thesis
        by (cases "current_month e = getCurrentMonth now")
           (auto simp: update_quota_same update_quota_reset quota_ok_def)
    next
      case False
      with assms Pair Consume show ?thesis by (simp add: update_quota_other)
    qed
  next
    case (Restore j days)
    show ?thesis
    proof (cases "j = i")
      case True
      with assms Pair Restore show ?thesis
        by (cases "current_month e = getCurrentMonth now")
           (auto simp: restore_same restore_other quota_ok_def)
    next
      case False
      with assms Pair Restore show ?thesis by (simp add: restore_quota_other)
    qed
  next
    case (RolloverIfNeeded j)
    show ?thesis
    proof (cases "j = i")
      case True
      with assms Pair RolloverIfNeeded show ?thesis
        by (cases "current_month e = getCurrentMonth now")
           (auto simp: checkAndReset_same checkAndReset_reset quota_ok_def)
    next
      case False
      with assms Pair RolloverIfNeeded show ?thesis by (simp add: checkAndReset_other)
    qed
  qed
qed

text \<open>
  Claim C1, as stated, fails: the service functions do not look at the sign of their
  \<open>days\<close> argument, and consuming \<open>-1\<close> days from an employee with 0 used days stores
  \<open>-1\<close> used days.
\<close>

theorem C1_counterexample:
  "quota_ok \<lparr>current_month = ''2025-01'', monthly_leave_quota = 5, used_leave_days_this_month = 0\<rparr>
   \<and> quota_run [(\<lparr>getFullYear = 2025, getMonth = 0\<rparr>, Consume 1 (- 1))]
        [1 \<mapsto> \<lparr>current_month = ''2025-01'', monthly_leave_quota = 5, used_leave_days_this_month = 0\<rparr>] 1
      = Some \<lparr>current_month = ''2025-01'', monthly_leave_quota = 5, used_leave_days_this_month = - 1\<rparr>
   \<and> \<not> quota_ok \<lparr>current_month = ''2025-01'', monthly_leave_quota = 5, used_leave_days_this_month = - 1\<rparr>"
  by (simp add: quota_ok_def updateEmployeeLeaveQuota_def checkAndResetMonthlyQuota_def
      getCurrentMonth_jan_2025)

text \<open>
  Claim C1, amended. For every employee whose quota state satisfies
  \<open>0 \<le> used_leave_days_this_month \<le> monthly_leave_quota\<close>, after any sequence of consume,
  restore and rolloverIfNeeded calls (for any employees, at any readings of the clock,
  one after the other) whose \<open>days\<close> arguments are not negative, the state still
  satisfies it, and the quota is the same.
\<close>

theorem C1_invariant:
  assumes "tbl i = Some e" and "quota_ok e" and "\<forall>c \<in> set cs. 0 \<le> call_days (snd c)"
  shows "\<exists>e'. quota_run cs tbl i = Some e' \<and> quota_ok e'
              \<and> monthly_leave_quota e' = monthly_leave_quota e"
  using assms
proof (induction cs arbitrary: tbl e)
  case Nil
  then show ?case by simp
next
  case (Cons c cs)
  from Cons.prems have "0 \<le> call_days (snd c)" by simp
  from quota_step_ok [of tbl i e c, OF Cons.prems(1) Cons.prems(2) this]
  obtain e1 where s: "quota_step c tbl i = Some e1" and ok: "quota_ok e1"
    and q: "monthly_leave_quota e1 = monthly_leave_quota e" by blast
  from Cons.prems have "\<forall>c \<in> set cs. 0 \<le> call_days (snd c)" by simp
  from Cons.IH [of "quota_step c tbl" e1, OF s ok this] q show ?case by simp
qed

theorem C1_invariant_witness:
  "\<exists>e'. quota_run [(\<lparr>getFullYear = 2025, getMonth = 0\<rparr>, Consume 1 4),
                    (\<lparr>getFullYear = 2025, getMonth = 0\<rparr>, Restore 1 6),
                    (\<lparr>getFullYear = 2025, getMonth = 1\<rparr>, RolloverIfNeeded 1),
                    (\<lparr>getFullYear = 2025, getMonth = 1\<rparr>, Consume 1 13)]
          [1 \<mapsto> \<lparr>current_month = ''2025-01'', monthly_leave_quota = 12, used_leave_days_this_month = 0\<rparr>] 1
        = Some e' \<and> quota_ok e' \<and> monthly_leave_quota e' = 12"
  using C1_invariant [of
     "[1 \<mapsto> \<lparr>current_month = ''2025-01'', monthly_leave_quota = 12, used_leave_days_this_month = 0\<rparr>]"
     1 "\<lparr>current_month = ''2025-01'', monthly_leave_quota = 12, used_leave_days_this_month = 0\<rparr>"
     "[(\<lparr>getFullYear = 2025, getMonth = 0\<rparr>, Consume 1 4),
       (\<lparr>getFullYear = 2025, getMonth = 0\<rparr>, Restore 1 6),
       (\<lparr>getFullYear = 2025, getMonth = 1\<rparr>, RolloverIfNeeded 1),
       (\<lparr>getFullYear = 2025, getMonth = 1\<rparr>, Consume 1 13)]"]
  by (simp add: quota_ok_def)

section \<open>Properties of the leave-day calculator\<close>

subsection \<open>Rounding to a double\<close>

lemma round_half_even_error: "\<bar>of_int (round_half_even y) - y\<bar> \<le> 1 / 2"
proof -
  have "of_int \<lfloor>y\<rfloor> \<le> y" "y < of_int \<lfloor>y\<rfloor> + 1" by linarith+
  then show ?thesis by (auto simp: round_half_even_def Let_def)
qed

lemma round_half_even_of_int: "round_half_even (of_int n) = n"
  by (simp add: round_half_even_def)

lemma round_half_even_minus: "round_half_even (- y) = - round_half_even y"
proof (cases "y = of_int \<lfloor>y\<rfloor>")
  case True
  then obtain n where "y = of_int n" ..
  then have "- y = of_int (- n)" by simp
  then show ?thesis unfolding \<open>y = of_int n\<close>
    by (metis round_half_even_of_int of_int_minus)
next
  case False
  have b: "of_int \<lfloor>y\<rfloor> \<le> y" "y < of_int \<lfloor>y\<rfloor> + 1" by linarith+
  with False have lt: "of_int \<lfloor>y\<rfloor> < y" by linarith
  have f: "\<lfloor>- y\<rfloor> = - \<lfloor>y\<rfloor> - 1"
  proof (rule floor_unique)
    have "- real_of_int \<lfloor>y\<rfloor> - 1 \<le> - y" using b by linarith
    then show "of_int (- \<lfloor>y\<rfloor> - 1) \<le> - y" by simp
    have "- y < - real_of_int \<lfloor>y\<rfloor>" using lt by linarith
    then show "- y < of_int (- \<lfloor>y\<rfloor> - 1) + 1" by simp
  qed
  show ?thesis
    using lt b by (auto simp: round_half_even_def Let_def f)
qed

lemma double_of_minus: "double_of (- x) = - double_of x"
  by (simp add: double_of_def round_half_even_minus Let_def)

lemma double_of_zero: "double_of 0 = 0"
  by (simp add: double_of_def)

lemma double_of_error:
  assumes "x \<noteq> 0"
  shows "\<bar>double_of x - x\<bar> \<le> 2 powr (of_int \<lfloor>log 2 \<bar>x\<bar>\<rfloor> - 52) / 2"
proof -
  define u :: real where "u = 2 powr (of_int \<lfloor>log 2 \<bar>x\<bar>\<rfloor> - 52)"
  have u: "0 < u" by (simp add: u_def)
  have "double_of x = of_int (round_half_even (x / u)) * u"
    using assms by (simp add: double_of_def Let_def u_def)
  then have "double_of x - x = (of_int (round_half_even (x / u)) - x / u) * u"
    using u by (simp add: algebra_simps)
  then have "\<bar>double_of x - x\<bar> = \<bar>of_int (round_half_even (x / u)) - x / u\<bar> * u"
    using u by (simp add: abs_mult)
  also have "\<dots> \<le> (1 / 2) * u"
    using round_half_even_error [of "x / u"] u by (intro mult_right_mono) simp_all
  finally show ?thesis by (simp add: u_def)
qed

lemma double_of_exact:
  assumes "x \<noteq> 0" and "x / 2 powr (of_int \<lfloor>log 2 \<bar>x\<bar>\<rfloor> - 52) = of_int m"
  shows "double_of x = x"
proof -
  define u :: real where "u = 2 powr (of_int \<lfloor>log 2 \<bar>x\<bar>\<rfloor> - 52)"
  have u: "0 < u" by (simp add: u_def)
  from assms(2) have m: "x / u = of_int m" by (simp add: u_def)
  have "double_of x = of_int (round_half_even (x / u)) * u"
    using assms(1) by (simp add: double_of_def Let_def u_def)
  also have "\<dots> = of_int m * u" by (simp add: m round_half_even_of_int)
  also have "\<dots> = x" using m u by (simp add: field_simps)
  finally show ?thesis .
qed

lemma double_of_int_exact:
  assumes "\<bar>n\<bar> \<le> 2 ^ 53"
  shows "double_of (of_int n) = of_int n"
proof (cases "n = 0")
  case True
  then show ?thesis by (simp add: double_of_zero)
next
  case False
  define e where "e = \<lfloor>log 2 \<bar>real_of_int n\<bar>\<rfloor>"
  have pos: "0 < \<bar>real_of_int n\<bar>" and one: "1 \<le> \<bar>real_of_int n\<bar>" using False by simp_all
  have bounds: "2 powr of_int e \<le> \<bar>real_of_int n\<bar>" "\<bar>real_of_int n\<bar> < 2 powr (of_int e + 1)"
    using floor_log_eq_powr_iff [of "\<bar>real_of_int n\<bar>" 2 e] pos by (simp_all add: e_def)
  have "0 \<le> log 2 \<bar>real_of_int n\<bar>" using one by simp
  then have e0: "0 \<le> e" by (simp add: e_def)
  have le: "\<bar>real_of_int n\<bar> \<le> 2 ^ 53"
  proof -
    from assms have "real_of_int \<bar>n\<bar> \<le> real_of_int (2 ^ 53)" by (rule of_int_le_iff [THEN iffD2])
    then show ?thesis by simp
  qed
  have p53: "(2::real) powr 53 = 2 ^ 53" by simp
  have "(2::real) powr of_int e \<le> 2 powr 53" using bounds(1) le unfolding p53 by linarith
  moreover have "(2::real) powr of_int e \<le> 2 powr 53 \<longleftrightarrow> real_of_int e \<le> 53"
    by (rule powr_le_cancel_iff) simp
  ultimately have "real_of_int e \<le> 53" by (rule iffD1 [rotated])
  then have e53: "e \<le> 53" by linarith
  show ?thesis
  proof (cases "e = 53")
    case True
    have "2 powr of_int e = (2::real) ^ 53" using True by simp
    with bounds(1) le have eq: "\<bar>real_of_int n\<bar> = 2 ^ 53" by linarith
    then have "real_of_int n = 2 ^ 53 \<or> real_of_int n = - (2 ^ 53)" by linarith
    then have "real_of_int n / 2 = of_int (2 ^ 52) \<or> real_of_int n / 2 = of_int (- (2 ^ 52))"
      by auto
    then obtain m where m: "real_of_int n / 2 = of_int m" by blast
    have ee: "\<lfloor>log 2 \<bar>real_of_int n\<bar>\<rfloor> = 53" using True by (simp add: e_def)
    have "real_of_int n / 2 powr (of_int \<lfloor>log 2 \<bar>real_of_int n\<bar>\<rfloor> - 52) = real_of_int n / 2"
      unfolding ee by simp
    also note m
    finally have "real_of_int n / 2 powr (of_int \<lfloor>log 2 \<bar>real_of_int n\<bar>\<rfloor> - 52) = of_int m" .
    moreover have "real_of_int n \<noteq> 0" using \<open>n \<noteq> 0\<close> by simp
    ultimately show ?thesis by (rule double_of_exact [rotated])
  next
    case False
    with e53 have "e \<le> 52" by simp
    define k where "k = nat (52 - e)"
    have k: "real_of_int e - 52 = - real k" using \<open>e \<le> 52\<close> by (simp add: k_def)
    have "2 powr (real_of_int e - 52) = inverse (2 ^ k)"
      unfolding k by (simp add: powr_minus powr_realpow)
    then have "real_of_int n / 2 powr (of_int e - 52) = of_int (n * 2 ^ k)"
      by (simp add: field_simps)
    then have "real_of_int n / 2 powr (of_int \<lfloor>log 2 \<bar>real_of_int n\<bar>\<rfloor> - 52) = of_int (n * 2 ^ k)"
      by (simp add: e_def)
    moreover have "real_of_int n \<noteq> 0" using \<open>n \<noteq> 0\<close> by simp
    ultimately show ?thesis by (rule double_of_exact [rotated])
  qed
qed

lemma double_of_near:
  assumes "0 < q" and "q < 2 ^ 27"
  shows "\<bar>double_of q - q\<bar> \<le> 1 / 2 ^ 27"
proof -
  define e where "e = \<lfloor>log 2 \<bar>q\<bar>\<rfloor>"
  have "log 2 q < 27" using assms by (simp add: log_less_iff)
  then have "e < 27" using assms by (simp add: e_def floor_less_iff)
  then have "real_of_int e - 52 \<le> - 26" by simp
  then have "2 powr (real_of_int e - 52) \<le> 2 powr (- 26)" by simp
  also have "\<dots> = 1 / 2 ^ 26" by (simp add: powr_minus inverse_eq_divide)
  finally have u: "2 powr (real_of_int e - 52) \<le> 1 / 2 ^ 26" .
  from assms have "q \<noteq> 0" by simp
  from double_of_error [OF this] have "\<bar>double_of q - q\<bar> \<le> 2 powr (real_of_int e - 52) / 2"
    by (simp add: e_def)
  also have "\<dots> \<le> (1 / 2 ^ 26) / 2" using u by simp
  finally show ?thesis by simp
qed

lemma ceiling_double_of_days:
  assumes "0 \<le> x" and "x \<le> 2 ^ 53"
  shows "\<lceil>double_of (real_of_int x / 86400000)\<rceil> = \<lceil>real_of_int x / 86400000\<rceil>"
proof (cases "x mod 86400000 = 0")
  case True
  then obtain k where x: "x = 86400000 * k" by (auto simp: mod_eq_0_iff_dvd)
  with assms have "0 \<le> k" "k \<le> 2 ^ 53" by simp_all
  then have "\<bar>k\<bar> \<le> 2 ^ 53" by simp
  from double_of_int_exact [OF this] show ?thesis by (simp add: x)
next
  case False
  define k where "k = x div 86400000"
  define r where "r = x mod 86400000"
  have r: "1 \<le> r" "r \<le> 86399999" using False by (simp_all add: r_def)
  have x: "x = 86400000 * k + r" by (simp add: k_def r_def)
  define q where "q = real_of_int x / 86400000"
  have q: "q = of_int k + of_int r / 86400000" by (simp add: q_def x)
  have rlo: "1 / 86400000 \<le> real_of_int r / 86400000" using r by simp
  have rhi: "real_of_int r / 86400000 \<le> 1 - 1 / 86400000" using r by simp
  have "0 \<le> k" using assms by (simp add: k_def pos_imp_zdiv_nonneg_iff)
  then have q0: "0 < q" using rlo by (simp add: q)
  have "real_of_int x \<le> 2 ^ 53"
  proof -
    from assms(2) have "real_of_int x \<le> real_of_int (2 ^ 53)" by (rule of_int_le_iff [THEN iffD2])
    then show ?thesis by simp
  qed
  then have q27: "q < 2 ^ 27" by (simp add: q_def)
  from double_of_near [OF q0 q27] have near: "\<bar>double_of q - q\<bar> \<le> 1 / 2 ^ 27" .
  have small: "(1::real) / 2 ^ 27 < 1 / 86400000" by simp
  from near small have close: "q - double_of q < 1 / 86400000" "double_of q - q < 1 / 86400000"
    by linarith+
  have "real_of_int k < double_of q" using close(1) rlo q by linarith
  then have lo: "of_int (k + 1) - 1 < double_of q" by simp
  have "double_of q \<le> real_of_int k + 1" using close(2) rhi q by linarith
  then have hi: "double_of q \<le> of_int (k + 1)" by simp
  have "\<lceil>double_of q\<rceil> = k + 1" using lo hi by (rule ceiling_unique)
  moreover have "\<lceil>q\<rceil> = k + 1"
  proof (rule ceiling_unique)
    have "real_of_int k < q" using rlo q by linarith
    then show "of_int (k + 1) - 1 < q" by simp
    have "q \<le> real_of_int k + 1" using rhi q by linarith
    then show "q \<le> of_int (k + 1)" by simp
  qed
  ultimately show ?thesis by (simp add: q_def)
qed

lemma calculateLeaveDays_exact:
  assumes "\<bar>b - a\<bar> \<le> 2 ^ 53"
  shows "calculateLeaveDays a b = \<lceil>real_of_int \<bar>b - a\<bar> / 86400000\<rceil> + 1"
proof -
  have "double_of (real_of_int b - real_of_int a) = real_of_int (b - a)"
    using double_of_int_exact [of "b - a"] assms by simp
  then have "\<bar>double_of (real_of_int b - real_of_int a)\<bar> = real_of_int \<bar>b - a\<bar>" by simp
  moreover have "\<lceil>double_of (real_of_int \<bar>b - a\<bar> / 86400000)\<rceil> = \<lceil>real_of_int \<bar>b - a\<bar> / 86400000\<rceil>"
    using assms by (intro ceiling_double_of_days) simp_all
  ultimately show ?thesis by (simp add: calculateLeaveDays_def)
qed

lemma calculateLeaveDays_three: "calculateLeaveDays 1736899200000 1737072000000 = 3"
  using calculateLeaveDays_exact [of 1737072000000 1736899200000] by simp

subsection \<open>The day count\<close>

text \<open>
  Claim C9, as stated, fails: the code computes in doubles, and the difference of two
  dates more than \<open>2 ^ 53\<close> milliseconds apart is rounded before it is divided. From the
  date \<open>-8639999913600001\<close> to the date \<open>8640000000000000\<close> the code counts 200000000
  days, where the formula of the claim gives 200000001.
\<close>

theorem C9_counterexample:
  "calculateLeaveDays (- 8639999913600001) 8640000000000000 = 200000000
   \<and> \<lceil>real_of_int \<bar>8640000000000000 - (- 8639999913600001)\<bar> / 86400000\<rceil> + 1 = (200000001::int)"
proof -
  have e: "\<lfloor>log 2 (17279999913600001::real)\<rfloor> = 53"
    by (subst floor_log_eq_powr_iff) simp_all
  have r: "round_half_even (17279999913600001 / 2) = 8639999956800000"
    by (simp add: round_half_even_def Let_def)
  have "double_of 17279999913600001 = 17279999913600000"
    by (simp add: double_of_def e r Let_def)
  then have d: "\<bar>double_of (real_of_int 8640000000000000 - real_of_int (- 8639999913600001))\<bar>
                 = 17279999913600000"
    by simp
  have q: "double_of (17279999913600000 / 86400000) = 199999999"
    using double_of_int_exact [of 199999999] by simp
  have "calculateLeaveDays (- 8639999913600001) 8640000000000000 = 200000000"
    unfolding calculateLeaveDays_def Let_def d using q by simp
  moreover
  have "\<lceil>real_of_int \<bar>8640000000000000 - (- 8639999913600001)\<bar> / 86400000\<rceil> + 1
          = (200000001::int)"
    by simp
  ultimately show ?thesis by (rule conjI)
qed

text \<open>
  Claim C9, amended. For all dates \<open>a\<close> and \<open>b\<close> at most \<open>2 ^ 53\<close> milliseconds (some 285000
  years) apart, \<open>calculateLeaveDays\<close> (inclusiveDayCount) is the ceiling of the absolute
  difference of the two instants divided by one day (86400 seconds, 86400000
  milliseconds), plus one; for all dates it is the same with its arguments swapped; and
  from a date to itself it is 1.
\<close>

theorem C9_calculateLeaveDays:
  "(\<bar>b - a\<bar> \<le> 2 ^ 53 \<longrightarrow>
      calculateLeaveDays a b = \<lceil>real_of_int \<bar>b - a\<bar> / 86400000\<rceil> + 1)
   \<and> calculateLeaveDays a b = calculateLeaveDays b a
   \<and> calculateLeaveDays d d = 1"
proof (intro conjI impI)
  assume "\<bar>b - a\<bar> \<le> 2 ^ 53"
  then show "calculateLeaveDays a b = \<lceil>real_of_int \<bar>b - a\<bar> / 86400000\<rceil> + 1"
    by (rule calculateLeaveDays_exact)
next
  have "real_of_int a - real_of_int b = - (real_of_int b - real_of_int a)" by simp
  then have "\<bar>double_of (real_of_int a - real_of_int b)\<bar>
               = \<bar>double_of (real_of_int b - real_of_int a)\<bar>"
    by (simp only: double_of_minus abs_minus_cancel)
  then show "calculateLeaveDays a b = calculateLeaveDays b a"
    by (simp add: calculateLeaveDays_def)
next
  show "calculateLeaveDays d d = 1"
    by (simp add: calculateLeaveDays_def double_of_zero)
qed

theorem C9_calculateLeaveDays_witness:
  "calculateLeaveDays 1736899200000 1737072000000 = 3
   \<and> calculateLeaveDays 1737072000000 1736899200000 = 3
   \<and> calculateLeaveDays 1736899200000 1736899200000 = 1"
  using C9_calculateLeaveDays [of 1737072000000 1736899200000 1736899200000]
    C9_calculateLeaveDays [of 1736899200000 1737072000000 1736899200000]
  by simp

section \<open>Properties of the leave routes\<close>

subsection \<open>Start dates used in the examples\<close>





subsection \<open>Changing the status of a request\<close>

lemma put_status_not_pending:
  assumes "leave_tbl w leaveId = Some r" and "status r \<noteq> ''pending''"
  shows "put_status now w leaveId newStatus =
           (Inr (r\<lparr>status := newStatus\<rparr>),
            w\<lparr>leave_tbl := (leave_tbl w)(leaveId \<mapsto> r\<lparr>status := newStatus\<rparr>)\<rparr>)"
  using assms by (simp add: put_status_def leaveRequest_update_status_def Let_def)



text \<open>
  Claim C2, as stated, fails: \<^verbatim>\<open>PUT /:id/status\<close> never looks at the previous status to
  refuse the change. An approved request of kind \<^verbatim>\<open>Sakit\<close> that is set to \<^verbatim>\<open>rejected\<close> is
  answered with the updated row, and the row's status is \<^verbatim>\<open>rejected\<close> afterwards.
\<close>

theorem C2_counterexample:
  "fst (put_status jan_2025
          (world_of (employee_7 12 0) [1 \<mapsto> sakit_of_7 1736899200000 1737072000000 3 ''approved''])
          1 ''rejected'')
     = Inr (sakit_of_7 1736899200000 1737072000000 3 ''rejected'')
   \<and> leave_tbl (snd (put_status jan_2025
          (world_of (employee_7 12 0) [1 \<mapsto> sakit_of_7 1736899200000 1737072000000 3 ''approved''])
          1 ''rejected'')) 1
     = Some (sakit_of_7 1736899200000 1737072000000 3 ''rejected'')"
  by (simp add: put_status_def leaveRequest_update_status_def Let_def)

text \<open>
  Claim C2, amended. For every leave request whose status is not \<^verbatim>\<open>pending\<close> (already
  \<^verbatim>\<open>approved\<close> or \<^verbatim>\<open>rejected\<close>), the status-transition operation does not fail: it stores
  the requested status on the request, whatever it is, and answers with the updated
  request.
\<close>

theorem C2_transition:
  assumes "leave_tbl w leaveId = Some r" and "status r \<noteq> ''pending''"
  shows "fst (put_status now w leaveId newStatus) = Inr (r\<lparr>status := newStatus\<rparr>)
         \<and> leave_tbl (snd (put_status now w leaveId newStatus))
             = (leave_tbl w)(leaveId \<mapsto> r\<lparr>status := newStatus\<rparr>)"
  using put_status_not_pending [of w leaveId r now newStatus, OF assms] by simp

theorem C2_transition_witness:
  "fst (put_status jan_2025
          (world_of (employee_7 12 0) [1 \<mapsto> sakit_of_7 1736899200000 1737072000000 3 ''rejected''])
          1 ''approved'')
     = Inr (sakit_of_7 1736899200000 1737072000000 3 ''approved'')
   \<and> leave_tbl (snd (put_status jan_2025
          (world_of (employee_7 12 0) [1 \<mapsto> sakit_of_7 1736899200000 1737072000000 3 ''rejected''])
          1 ''approved''))
     = [1 \<mapsto> sakit_of_7 1736899200000 1737072000000 3 ''approved'']"
  using C2_transition [of
      "world_of (employee_7 12 0) [1 \<mapsto> sakit_of_7 1736899200000 1737072000000 3 ''rejected'']"
      1 "sakit_of_7 1736899200000 1737072000000 3 ''rejected''" jan_2025 "''approved''"]
  by simp

text \<open>
  Claim C3 does not hold of the routes: neither \<^verbatim>\<open>PUT /:id/status\<close> nor \<^verbatim>\<open>DELETE /:id\<close>
  calls \<open>restoreLeaveQuota\<close>, which the routes import and whose comment says it gives the
  quota back when a leave is cancelled or rejected. Employee 7 has used 4 of 12 days for
  an approved request of 4 days in the current month; after the request is rejected, and
  after it is deleted, the used days are still 4, where \<open>restoreLeaveQuota\<close> would have
  made them 0.
\<close>

theorem C3_no_restore:
  "put_status jan_2025
     (world_of (employee_7 12 4) [1 \<mapsto> cuti_of_7 1736899200000 1737158400000 4 ''approved'']) 1 ''rejected''
   = (Inr (cuti_of_7 1736899200000 1737158400000 4 ''rejected''),
      world_of (employee_7 12 4) [1 \<mapsto> cuti_of_7 1736899200000 1737158400000 4 ''rejected''])
   \<and> delete_leave
     (world_of (employee_7 12 4) [1 \<mapsto> cuti_of_7 1736899200000 1737158400000 4 ''approved'']) 1
   = (Inr (), world_of (employee_7 12 4) Map.empty)
   \<and> restoreLeaveQuota jan_2025 (employee_7 12 4) 7 4 = (Inr (), employee_7 12 0)"
  by (simp add: put_status_def leaveRequest_update_status_def delete_leave_def
      restoreLeaveQuota_def getCurrentMonth_jan_2025 Let_def)




subsection \<open>Creating a request\<close>

text \<open>
  Claim C8 does not hold of \<^verbatim>\<open>POST /\<close>: the answer for an insufficient quota returns
  before the \<^verbatim>\<open>catch\<close> block, the only place that removes the uploaded file. Employee 7
  has 2 days left and asks for 3 days of \<^verbatim>\<open>Cuti\<close> with an attachment: the request is
  refused, no row is created, and the file stays in the directory. When the failure is
  an exception (here: employee 8 does not exist), the file is removed.
\<close>

theorem C8_orphaned_attachment:
  "post_leave jan_2025 (world_of (employee_7 12 10) Map.empty) 7
      1736899200000 1737072000000 ''Cuti'' ''liburan'' (Some ''7_1736000000000_surat.pdf'')
   = (Inl (QuotaInsufficient 2),
      \<lparr>employee_tbl = employee_7 12 10, leave_tbl = Map.empty, next_leave_id = 2,
       sick_letters = {''7_1736000000000_surat.pdf''}\<rparr>)
   \<and> post_leave jan_2025 (world_of (employee_7 12 10) Map.empty) 8
      1736899200000 1737072000000 ''Cuti'' ''liburan'' (Some ''8_1736000000000_surat.pdf'')
   = (Inl NotFound, world_of (employee_7 12 10) Map.empty)"
  by (simp add: post_leave_def post_leave_handler_def upload_single_def unlink_if_exists_def
      checkLeaveQuota_def checkAndReset_same checkAndReset_None calculateLeaveDays_three
      getCurrentMonth_jan_2025 Let_def)

section \<open>Properties of the alpha routes\<close>

lemma filter_attendance_update:
  assumes "\<And>r. attendance_id (change r) = attendance_id r"
    and "\<And>r. \<not> P (change r)"
  shows "filter P (attendance_update a change atts) =
         filter (\<lambda>r. attendance_id r \<noteq> a) (filter P atts)"
  using assms by (induction atts) (auto simp: attendance_update_def)

lemma alpha_findMany_filter:
  "alpha_findMany (filter Q atts) s e = filter Q (alpha_findMany atts s e)"
  by (simp add: alpha_findMany_def filter_sort conj_commute)

lemma alpha_findMany_update:
  assumes "new_status \<noteq> ''alpa''"
  shows "alpha_findMany
           (attendance_update a (\<lambda>r. r\<lparr>att_status := new_status, keterangan := remark\<rparr>) atts) s e
         = filter (\<lambda>r. attendance_id r \<noteq> a) (alpha_findMany atts s e)"
proof -
  let ?P = "\<lambda>r. att_status r = ''alpa'' \<and> s \<le> tanggal r \<and> tanggal r \<le> e"
  let ?change = "\<lambda>r. r\<lparr>att_status := new_status, keterangan := remark\<rparr>"
  have "filter ?P (attendance_update a ?change atts) =
        filter (\<lambda>r. attendance_id r \<noteq> a) (filter ?P atts)"
    by (rule filter_attendance_update) (simp_all add: assms)
  then show ?thesis by (simp add: alpha_findMany_def filter_sort)
qed

lemma convert_alpha_success:
  assumes "convert_alpha username atts a new_status k = (Inr updated, atts')"
  shows "new_status \<in> set [''hadir'', ''izin'', ''sakit'']"
    and "\<exists>rec. attendance_findUnique atts a = Some rec \<and> att_status rec = ''alpa''"
    and "\<exists>remark. atts' = attendance_update a (\<lambda>r. r\<lparr>att_status := new_status, keterangan := remark\<rparr>) atts"
    and "att_status updated = new_status"
  using assms
  by (auto simp: convert_alpha_def Let_def split: if_splits option.splits)

text \<open>
  Claim C10. After \<^verbatim>\<open>PUT /convert/:attendance_id\<close> has succeeded on a record, which
  it does only on a record whose status is \<^verbatim>\<open>alpa\<close>, and only with a new status that is
  not \<^verbatim>\<open>alpa\<close>: for every date range, the alpha records found are those found before
  without the converted record, the summary is the summary of the table without that
  record, its count is the number of the remaining alpha records and its deduction is
  that number times 100000; the same holds for the count and deduction of one employee.
  On a record whose status is not \<^verbatim>\<open>alpa\<close> the conversion fails and changes nothing.
\<close>

theorem C10_reclassify:
  "(convert_alpha username atts a new_status k = (Inr updated, atts') \<longrightarrow>
      (\<exists>rec. attendance_findUnique atts a = Some rec \<and> att_status rec = ''alpa'')
      \<and> att_status updated = new_status \<and> new_status \<noteq> ''alpa''
      \<and> (\<forall>s e. alpha_findMany atts' s e
                  = filter (\<lambda>r. attendance_id r \<noteq> a) (alpha_findMany atts s e)
               \<and> get_summary atts' s e
                  = get_summary (filter (\<lambda>r. attendance_id r \<noteq> a) atts) s e
               \<and> total_alpha_records (get_summary atts' s e)
                  = length (filter (\<lambda>r. attendance_id r \<noteq> a) (alpha_findMany atts s e))
               \<and> total_deduction (get_summary atts' s e)
                  = length (filter (\<lambda>r. attendance_id r \<noteq> a) (alpha_findMany atts s e)) * 100000
               \<and> (\<forall>i. get_employee_alpha atts' i s e
                        = get_employee_alpha (filter (\<lambda>r. attendance_id r \<noteq> a) atts) i s e)))
   \<and> (attendance_findUnique atts a = Some rec \<and> att_status rec \<noteq> ''alpa'' \<longrightarrow>
        (\<exists>err. convert_alpha username atts a new_status k = (Inl err, atts)))"
proof (intro conjI impI)
  assume c: "convert_alpha username atts a new_status k = (Inr updated, atts')"
  from convert_alpha_success(1) [OF c] have ns: "new_status \<noteq> ''alpa''" by auto
  from convert_alpha_success(3) [OF c] obtain remark where
    u: "atts' = attendance_update a (\<lambda>r. r\<lparr>att_status := new_status, keterangan := remark\<rparr>) atts"
    by blast
  have m: "alpha_findMany atts' s e = filter (\<lambda>r. attendance_id r \<noteq> a) (alpha_findMany atts s e)"
    for s e
    unfolding u by (rule alpha_findMany_update [OF ns])
  have f: "alpha_findMany atts' s e = alpha_findMany (filter (\<lambda>r. attendance_id r \<noteq> a) atts) s e"
    for s e
    by (simp add: m alpha_findMany_filter)
  show "\<exists>rec. attendance_findUnique atts a = Some rec \<and> att_status rec = ''alpa''"
    by (rule convert_alpha_success(2) [OF c])
  show "att_status updated = new_status" by (rule convert_alpha_success(4) [OF c])
  show "new_status \<noteq> ''alpa''" by (rule ns)
  show "\<forall>s e. alpha_findMany atts' s e
                  = filter (\<lambda>r. attendance_id r \<noteq> a) (alpha_findMany atts s e)
               \<and> get_summary atts' s e
                  = get_summary (filter (\<lambda>r. attendance_id r \<noteq> a) atts) s e
               \<and> total_alpha_records (get_summary atts' s e)
                  = length (filter (\<lambda>r. attendance_id r \<noteq> a) (alpha_findMany atts s e))
               \<and> total_deduction (get_summary atts' s e)
                  = length (filter (\<lambda>r. attendance_id r \<noteq> a) (alpha_findMany atts s e)) * 100000
               \<and> (\<forall>i. get_employee_alpha atts' i s e
                        = get_employee_alpha (filter (\<lambda>r. attendance_id r \<noteq> a) atts) i s e)"
  proof (intro allI conjI)
    fix s e
    show "alpha_findMany atts' s e
            = filter (\<lambda>r. attendance_id r \<noteq> a) (alpha_findMany atts s e)" by (rule m)
    show "get_summary atts' s e = get_summary (filter (\<lambda>r. attendance_id r \<noteq> a) atts) s e"
      by (simp add: get_summary_def f)
    show "total_alpha_records (get_summary atts' s e)
            = length (filter (\<lambda>r. attendance_id r \<noteq> a) (alpha_findMany atts s e))"
      by (simp add: get_summary_def Let_def m)
    show "total_deduction (get_summary atts' s e)
            = length (filter (\<lambda>r. attendance_id r \<noteq> a) (alpha_findMany atts s e)) * 100000"
      by (simp add: get_summary_def Let_def m)
    fix i
    show "get_employee_alpha atts' i s e
            = get_employee_alpha (filter (\<lambda>r. attendance_id r \<noteq> a) atts) i s e"
      by (simp add: get_employee_alpha_def f)
  qed
next
  assume "attendance_findUnique atts a = Some rec \<and> att_status rec \<noteq> ''alpa''"
  then show "\<exists>err. convert_alpha username atts a new_status k = (Inl err, atts)"
    by (simp add: convert_alpha_def)
qed

theorem C10_reclassify_witness:
  "convert_alpha ''hr''
      [alpha_row 1 7 1736899200000 ''alpa'', alpha_row 2 7 1737072000000 ''alpa'',
       alpha_row 3 8 1736899200000 ''alpa''] 1 ''hadir'' (Some ''Salah catat'')
     = (Inr (\<lparr>attendance_id = 1, att_employee_id = 7, tanggal = 1736899200000,
              att_status = ''hadir'', keterangan = ''Salah catat''\<rparr>),
        [\<lparr>attendance_id = 1, att_employee_id = 7, tanggal = 1736899200000,
              att_status = ''hadir'', keterangan = ''Salah catat''\<rparr>,
         alpha_row 2 7 1737072000000 ''alpa'', alpha_row 3 8 1736899200000 ''alpa''])
   \<and> total_alpha_records (get_summary
        [\<lparr>attendance_id = 1, att_employee_id = 7, tanggal = 1736899200000,
              att_status = ''hadir'', keterangan = ''Salah catat''\<rparr>,
         alpha_row 2 7 1737072000000 ''alpa'', alpha_row 3 8 1736899200000 ''alpa'']
        1735689600000 1738367999000) = 2
   \<and> total_deduction (get_summary
        [\<lparr>attendance_id = 1, att_employee_id = 7, tanggal = 1736899200000,
              att_status = ''hadir'', keterangan = ''Salah catat''\<rparr>,
         alpha_row 2 7 1737072000000 ''alpa'', alpha_row 3 8 1736899200000 ''alpa'']
        1735689600000 1738367999000) = 200000
   \<and> (\<exists>err. convert_alpha ''hr''
        [\<lparr>attendance_id = 1, att_employee_id = 7, tanggal = 1736899200000,
              att_status = ''hadir'', keterangan = ''Salah catat''\<rparr>,
         alpha_row 2 7 1737072000000 ''alpa'', alpha_row 3 8 1736899200000 ''alpa''] 1 ''izin'' None
     = (Inl err,
        [\<lparr>attendance_id = 1, att_employee_id = 7, tanggal = 1736899200000,
              att_status = ''hadir'', keterangan = ''Salah catat''\<rparr>,
         alpha_row 2 7 1737072000000 ''alpa'', alpha_row 3 8 1736899200000 ''alpa'']))"
proof -
  let ?before = "[alpha_row 1 7 1736899200000 ''alpa'', alpha_row 2 7 1737072000000 ''alpa'',
       alpha_row 3 8 1736899200000 ''alpa'']"
  let ?row = "\<lparr>attendance_id = 1, att_employee_id = 7, tanggal = 1736899200000,
              att_status = ''hadir'', keterangan = ''Salah catat''\<rparr>"
  let ?after = "[?row, alpha_row 2 7 1737072000000 ''alpa'', alpha_row 3 8 1736899200000 ''alpa'']"
  have c: "convert_alpha ''hr'' ?before 1 ''hadir'' (Some ''Salah catat'') = (Inr ?row, ?after)"
    by (simp add: convert_alpha_def attendance_findUnique_def attendance_update_def Let_def)
  have f: "attendance_findUnique ?after 1 = Some ?row \<and> att_status ?row \<noteq> ''alpa''"
    by (simp add: attendance_findUnique_def)
  have a: "alpha_findMany ?before 1735689600000 1738367999000 =
             [alpha_row 2 7 1737072000000 ''alpa'', alpha_row 1 7 1736899200000 ''alpa'',
              alpha_row 3 8 1736899200000 ''alpa'']"
    by (simp add: alpha_findMany_def)
  from C10_reclassify [of "''hr''" ?before 1 "''hadir''" "Some ''Salah catat''" ?row ?after] c
  have s: "\<forall>s e. total_alpha_records (get_summary ?after s e)
                   = length (filter (\<lambda>r. attendance_id r \<noteq> 1) (alpha_findMany ?before s e))
                 \<and> total_deduction (get_summary ?after s e)
                   = length (filter (\<lambda>r. attendance_id r \<noteq> 1) (alpha_findMany ?before s e)) * 100000"
    by blast
  from s [rule_format, of 1735689600000 1738367999000] a
  have "total_alpha_records (get_summary ?after 1735689600000 1738367999000) = 2"
    and "total_deduction (get_summary ?after 1735689600000 1738367999000) = 200000"
    by simp_all
  moreover
  from C10_reclassify [of "''hr''" ?after 1 "''izin''" None _ _ ?row] f
  have "\<exists>err. convert_alpha ''hr'' ?after 1 ''izin'' None = (Inl err, ?after)"
    by blast
  ultimately show ?thesis using c by simp
qed

end
